theory Spec2Isabelle
  imports Complex_Main
begin

section \<open>Data model of \<open>moex_bonds.py\<close>\<close>

text \<open>
  Calendar dates are day numbers (days since 1970-01-01, proleptic Gregorian calendar).
  The source holds an event date first as an ISO string \<open>YYYY-MM-DD\<close> (as delivered by the
  exchange and kept by \<open>moex_bond_info\<close>) and, after \<open>pd.to_datetime\<close>, as a midnight
  timestamp; both forms order like the day number they denote.
\<close>

type_synonym date = int

datatype date_cell = DateStr date | Timestamp date

text \<open>
  A cell of a DataFrame column: the dash written by \<open>fillna\<close> (an en dash in the source),
  a missing value (\<open>None\<close>/\<open>NaN\<close>), or a value.
\<close>

datatype 'a cell = Dash | NA | Val 'a

text \<open>One row of the cash-flow frame \<open>df_cf\<close> with the columns the source reads.\<close>

record cf_row =
  event_date :: date_cell
  coupon :: "real cell"
  amt :: "real cell"
  offer :: "real cell"
  offer_type :: "string cell"

type_synonym cf_frame = "cf_row list"

text \<open>
  The instrument frame \<open>df_nfo\<close>, read only through \<open>df_nfo.loc[label, 'value']\<close>:
  a map from the index label to the cell of the \<open>value\<close> column.
\<close>

type_synonym nfo_frame = "string \<rightharpoonup> real cell"

text \<open>
  Modelled from the spec: the failures of the root-finder, which is the function \<open>xirr\<close> of
  the library \<open>pyxirr\<close> and not in the source. It fails when there is no cash flow after
  the purchase date and when it does not converge.
\<close>

datatype xirr_error = UnsolvableSchedule | NonConvergence

datatype error =
    CantCalculateYTM            \<comment> \<open>\<open>raise Exception("Can't calculate YTM for the bond")\<close>\<close>
  | FaceValueOrAccruedMissing   \<comment> \<open>the re-raised lookup or conversion error of lines 199-205\<close>
  | XirrRaised xirr_error       \<comment> \<open>an exception of the root-finder, which the source lets pass\<close>

section \<open>The yield computation \<open>moex_bond_yield\<close>\<close>

text \<open>\<open>df_cf.replace({dash: None})\<close>: every dash becomes a missing value.\<close>

fun replace_dash :: "'a cell \<Rightarrow> 'a cell" where
  "replace_dash Dash = NA"
| "replace_dash NA = NA"
| "replace_dash (Val v) = Val v"

definition replace_row :: "cf_row \<Rightarrow> cf_row" where
  "replace_row r = r\<lparr>coupon := replace_dash (coupon r), amt := replace_dash (amt r),
     offer := replace_dash (offer r), offer_type := replace_dash (offer_type r)\<rparr>"

definition replace_frame :: "cf_frame \<Rightarrow> cf_frame" where
  "replace_frame df = map replace_row df"

fun isna :: "'a cell \<Rightarrow> bool" where
  "isna NA = True"
| "isna Dash = False"
| "isna (Val v) = False"

text \<open>
  The guard of line 196:
  \<open>df_cf['coupon'].isna().any() or not df_cf[['offer', 'offer_type']].isna().all().all()\<close>.
\<close>

definition cannot_calculate :: "cf_frame \<Rightarrow> bool" where
  "cannot_calculate df \<longleftrightarrow>
     (\<exists>r \<in> set df. isna (coupon r)) \<or> \<not> (\<forall>r \<in> set df. isna (offer r) \<and> isna (offer_type r))"

text \<open>
  \<open>float(df_nfo.loc[label, 'value'])\<close>: a missing label, a dash or a missing value
  (\<open>None\<close>) raises; a value converts to its number.
\<close>

definition float_at :: "nfo_frame \<Rightarrow> string \<Rightarrow> real option" where
  "float_at df label = (case df label of Some (Val x) \<Rightarrow> Some x | _ \<Rightarrow> None)"

fun to_datetime :: "date_cell \<Rightarrow> date_cell" where
  "to_datetime (DateStr d) = Timestamp d"
| "to_datetime (Timestamp d) = Timestamp d"

definition to_datetime_frame :: "cf_frame \<Rightarrow> cf_frame" where
  "to_datetime_frame df = map (\<lambda>r. r\<lparr>event_date := to_datetime (event_date r)\<rparr>) df"

fun day_of :: "date_cell \<Rightarrow> date" where
  "day_of (DateStr d) = d"
| "day_of (Timestamp d) = d"

text \<open>\<open>df_cf[df_cf['event_date'] > purchase_date]\<close>\<close>

definition after_purchase :: "date \<Rightarrow> cf_frame \<Rightarrow> cf_frame" where
  "after_purchase purchase_date df = filter (\<lambda>r. day_of (event_date r) > purchase_date) df"

text \<open>
  \<open>df_cf[['coupon', 'amt']].sum(axis=1)\<close>: pandas skips missing values, so a missing cell
  adds nothing. The frame summed has been through \<open>replace\<close> and holds no dash.
\<close>

fun skipna :: "real cell \<Rightarrow> real" where
  "skipna (Val x) = x"
| "skipna NA = 0"
| "skipna Dash = 0"

definition row_sum :: "cf_row \<Rightarrow> real" where
  "row_sum r = skipna (coupon r) + skipna (amt r)"

text \<open>
  Lines 194-213: everything up to the call of the root-finder. \<open>today\<close> is the value of
  \<open>date.today()\<close>, which the source reads from the system clock.
\<close>

definition xirr_arguments ::
  "date \<Rightarrow> nfo_frame \<Rightarrow> cf_frame \<Rightarrow> real \<Rightarrow> error + (date list \<times> real list)" where
  "xirr_arguments today df_nfo df_cf price =
     (let df1 = replace_frame df_cf in
      if cannot_calculate df1 then Inl CantCalculateYTM
      else
        let purchase_date = today in
        case float_at df_nfo ''FACEVALUE'' of
          None \<Rightarrow> Inl FaceValueOrAccruedMissing
        | Some facevalue \<Rightarrow>
           (case float_at df_nfo ''ACCRUEDINT'' of
              None \<Rightarrow> Inl FaceValueOrAccruedMissing
            | Some accruedint \<Rightarrow>
               (let df2 = to_datetime_frame df1;
                    df3 = after_purchase purchase_date df2;
                    dates = purchase_date # map (\<lambda>r. day_of (event_date r)) df3;
                    amounts = (- price / 100 * facevalue - accruedint) # map row_sum df3
                in Inr (dates, amounts))))"

text \<open>
  Python's \<open>round(x, n)\<close>: to \<open>n\<close> decimals, a tie going to the even neighbour.
\<close>

definition py_round :: "real \<Rightarrow> nat \<Rightarrow> real" where
  "py_round x n =
     (let s = x * 10 ^ n; f = \<lfloor>s\<rfloor>; d = s - of_int f
      in (if d < 1 / 2 then of_int f
          else if 1 / 2 < d then of_int f + 1
          else if even f then of_int f else of_int f + 1) / 10 ^ n)"

text \<open>
  Lines 182-216. The root-finder \<open>xirr\<close> is a parameter here: it receives the timeline and
  the amounts and gives a rate or raises. The source does not catch what it raises.
\<close>

definition moex_bond_yield ::
  "(date list \<Rightarrow> real list \<Rightarrow> xirr_error + real) \<Rightarrow> date \<Rightarrow> nfo_frame \<Rightarrow> cf_frame
     \<Rightarrow> real \<Rightarrow> error + real" where
  "moex_bond_yield xirr today df_nfo df_cf price =
     (case xirr_arguments today df_nfo df_cf price of
        Inl e \<Rightarrow> Inl e
      | Inr (dates, amounts) \<Rightarrow>
         (case xirr dates amounts of
            Inl e \<Rightarrow> Inl (XirrRaised e)
          | Inr rate \<Rightarrow> Inr (py_round (rate * 100) 2)))"

section \<open>The same computation on a store of objects\<close>

text \<open>
  Python passes DataFrames by reference. To follow which object each statement of
  \<open>moex_bond_yield\<close> reads and which it writes, objects live in a store: \<open>cells\<close> maps an
  address to the object there and \<open>next_free\<close> is the first address never handed out.
\<close>

datatype obj = NfoFrame nfo_frame | CfFrame cf_frame

record heap =
  cells :: "nat \<rightharpoonup> obj"
  next_free :: nat

definition alloc :: "heap \<Rightarrow> obj \<Rightarrow> nat \<times> heap" where
  "alloc h x = (next_free h, h\<lparr>cells := (cells h)(next_free h \<mapsto> x), next_free := Suc (next_free h)\<rparr>)"

definition store_at :: "heap \<Rightarrow> nat \<Rightarrow> obj \<Rightarrow> heap" where
  "store_at h p x = h\<lparr>cells := (cells h)(p \<mapsto> x)\<rparr>"

text \<open>
  \<open>p_nfo\<close> and \<open>p_cf\<close> are the addresses of the caller's two frames. \<open>replace\<close> and the
  boolean selection each build a new frame; the assignment to the column \<open>event_date\<close> of
  line 207 writes into the frame the local name \<open>df_cf\<close> refers to at that point. An
  argument that is not a frame of the expected kind is an error.
\<close>

definition moex_bond_yield_heap ::
  "(date list \<Rightarrow> real list \<Rightarrow> xirr_error + real) \<Rightarrow> date \<Rightarrow> heap \<Rightarrow> nat \<Rightarrow> nat
     \<Rightarrow> real \<Rightarrow> (error + real) option \<times> heap" where
  "moex_bond_yield_heap xirr today h p_nfo p_cf price =
     (case (cells h p_nfo, cells h p_cf) of
        (Some (NfoFrame df_nfo), Some (CfFrame df_cf)) \<Rightarrow>
          (let df1 = replace_frame df_cf;
               (q1, h1) = alloc h (CfFrame df1)
           in if cannot_calculate df1 then (Some (Inl CantCalculateYTM), h1)
              else
                let purchase_date = today in
                case float_at df_nfo ''FACEVALUE'' of
                  None \<Rightarrow> (Some (Inl FaceValueOrAccruedMissing), h1)
                | Some facevalue \<Rightarrow>
                   (case float_at df_nfo ''ACCRUEDINT'' of
                      None \<Rightarrow> (Some (Inl FaceValueOrAccruedMissing), h1)
                    | Some accruedint \<Rightarrow>
                       (let df2 = to_datetime_frame df1;
                            h2 = store_at h1 q1 (CfFrame df2);
                            df3 = after_purchase purchase_date df2;
                            (q2, h3) = alloc h2 (CfFrame df3);
                            dates = purchase_date # map (\<lambda>r. day_of (event_date r)) df3;
                            amounts = (- price / 100 * facevalue - accruedint) # map row_sum df3
                        in (case xirr dates amounts of
                              Inl e \<Rightarrow> (Some (Inl (XirrRaised e)), h3)
                            | Inr rate \<Rightarrow> (Some (Inr (py_round (rate * 100) 2)), h3)))))
      | _ \<Rightarrow> (None, h))"

section \<open>The cash-flow table of \<open>moex_bond_info\<close>\<close>

text \<open>
  The three tables of the exchange's answer, after \<open>reindex\<close> has kept the columns the
  source names. A JSON \<open>null\<close> is \<open>None\<close>.
\<close>

record coupon_rec =
  coupondate :: date
  coupon_value :: "real option"

record amort_rec =
  amortdate :: date
  amort_value :: "real option"

record offer_rec =
  offerdate :: date
  offer_price :: "real option"
  offertype :: "string option"

fun json_cell :: "'a option \<Rightarrow> 'a cell" where
  "json_cell None = NA"
| "json_cell (Some v) = Val v"

text \<open>
  \<open>left.merge(right, how='outer', on='event_date')\<close> of pandas on frames given as lists of
  (key, rest of the row): the keys of the result are the keys of either side in ascending
  order; a key on both sides gives every pairing of its left rows with its right rows; a
  key on one side only gives that side's rows, the other side's columns missing.
  \<open>merge_block\<close> is the part of the result for one key.
\<close>

definition merge_block ::
  "(date \<times> 'a) list \<Rightarrow> (date \<times> 'b) list \<Rightarrow> date \<Rightarrow> (date \<times> 'a option \<times> 'b option) list" where
  "merge_block left right k =
     (let ls = map snd (filter (\<lambda>x. fst x = k) left);
          rs = map snd (filter (\<lambda>y. fst y = k) right)
      in if rs = [] then map (\<lambda>l. (k, Some l, None)) ls
         else if ls = [] then map (\<lambda>r. (k, None, Some r)) rs
         else concat (map (\<lambda>l. map (\<lambda>r. (k, Some l, Some r)) rs) ls))"

definition merge_outer ::
  "(date \<times> 'a) list \<Rightarrow> (date \<times> 'b) list \<Rightarrow> (date \<times> 'a option \<times> 'b option) list" where
  "merge_outer left right =
     concat (map (merge_block left right) (sort (remdups (map fst left @ map fst right))))"

fun nan_fill :: "'a cell option \<Rightarrow> 'a cell" where
  "nan_fill None = NA"
| "nan_fill (Some c) = c"

text \<open>\<open>df_cf.fillna(dash)\<close>\<close>

fun fillna :: "'a cell \<Rightarrow> 'a cell" where
  "fillna NA = Dash"
| "fillna Dash = Dash"
| "fillna (Val v) = Val v"

definition fillna_row :: "cf_row \<Rightarrow> cf_row" where
  "fillna_row r = r\<lparr>coupon := fillna (coupon r), amt := fillna (amt r),
     offer := fillna (offer r), offer_type := fillna (offer_type r)\<rparr>"

text \<open>
  Lines 154-170 of \<open>moex_bond_info\<close>: the three frames with the renamed columns, each
  row as (event date, rest of the row).
\<close>

definition df_coupons :: "coupon_rec list \<Rightarrow> (date \<times> real cell) list" where
  "df_coupons coupons = map (\<lambda>c. (coupondate c, json_cell (coupon_value c))) coupons"

definition df_amt :: "amort_rec list \<Rightarrow> (date \<times> real cell) list" where
  "df_amt amortizations = map (\<lambda>a. (amortdate a, json_cell (amort_value a))) amortizations"

definition df_off :: "offer_rec list \<Rightarrow> (date \<times> real cell \<times> string cell) list" where
  "df_off offers =
     map (\<lambda>x. (offerdate x, json_cell (offer_price x), json_cell (offertype x))) offers"

text \<open>
  The rows of the two merged frames: a column whose side is missing for the key holds a
  missing value.
\<close>

definition coupon_amt_row ::
  "date \<times> real cell option \<times> real cell option \<Rightarrow> date \<times> real cell \<times> real cell" where
  "coupon_amt_row x = (fst x, nan_fill (fst (snd x)), nan_fill (snd (snd x)))"

definition merged_row ::
  "date \<times> (real cell \<times> real cell) option \<times> (real cell \<times> string cell) option \<Rightarrow> cf_row" where
  "merged_row x =
     \<lparr>event_date = DateStr (fst x),
      coupon = nan_fill (map_option fst (fst (snd x))),
      amt = nan_fill (map_option snd (fst (snd x))),
      offer = nan_fill (map_option fst (snd (snd x))),
      offer_type = nan_fill (map_option snd (snd (snd x)))\<rparr>"

text \<open>
  Lines 172-175 of \<open>moex_bond_info\<close>: the two outer merges, \<open>fillna\<close> and
  \<open>sort_values(by='event_date')\<close>. The sort is written as a stable one; pandas does not
  promise the order among rows of equal date.
\<close>

definition moex_bond_info_cf ::
  "coupon_rec list \<Rightarrow> amort_rec list \<Rightarrow> offer_rec list \<Rightarrow> cf_frame" where
  "moex_bond_info_cf coupons amortizations offers =
     (let df_cf1 = map coupon_amt_row (merge_outer (df_coupons coupons) (df_amt amortizations));
          df_cf2 = map merged_row (merge_outer df_cf1 (df_off offers));
          df_cf3 = map fillna_row df_cf2
      in sort_key (\<lambda>r. day_of (event_date r)) df_cf3)"

section \<open>Calendar and present value\<close>

text \<open>
  The Gregorian calendar on day numbers: leap years, the day number of a calendar date and
  the year of a day number.
\<close>

definition is_leap :: "int \<Rightarrow> bool" where
  "is_leap y \<longleftrightarrow> y mod 4 = 0 \<and> (y mod 100 \<noteq> 0 \<or> y mod 400 = 0)"

definition days_in_year :: "int \<Rightarrow> int" where
  "days_in_year y = (if is_leap y then 366 else 365)"

definition days_from_civil :: "int \<Rightarrow> int \<Rightarrow> int \<Rightarrow> date" where
  "days_from_civil y m d =
     (let y1 = (if m \<le> 2 then y - 1 else y);
          era = y1 div 400;
          yoe = y1 - era * 400;
          doy = (153 * (if 2 < m then m - 3 else m + 9) + 2) div 5 + d - 1;
          doe = yoe * 365 + yoe div 4 - yoe div 100 + doy
      in era * 146097 + doe - 719468)"

definition year_of :: "date \<Rightarrow> int" where
  "year_of z0 =
     (let z = z0 + 719468;
          era = z div 146097;
          doe = z - era * 146097;
          yoe = (doe - doe div 1460 + doe div 36524 - doe div 146096) div 365;
          doy = doe - (365 * yoe + yoe div 4 - yoe div 100);
          mp = (5 * doy + 2) div 153
      in yoe + era * 400 + (if mp < 10 then 0 else 1))"

definition year_start :: "int \<Rightarrow> date" where
  "year_start y = days_from_civil y 1 1"

text \<open>
  Modelled from the spec: the day-count helper is part of the root-finding library and not
  in the source. Actual/actual (ISDA): over each calendar year the interval touches, the
  days of the interval that fall in that year, divided by the length of that year.
\<close>

definition year_fraction :: "date \<Rightarrow> date \<Rightarrow> real" where
  "year_fraction d1 d2 =
     (\<Sum>y \<leftarrow> [year_of d1 .. year_of d2].
        real_of_int (max 0 (min d2 (year_start (y + 1)) - max d1 (year_start y)))
          / real_of_int (days_in_year y))"

text \<open>
  Modelled from the spec: the net present value the root-finder zeroes,
  \<open>\<Sum> amount_i / (1 + r)^t_i\<close> with \<open>t_i\<close> the year fraction from the first date of the
  timeline to the date of cash flow \<open>i\<close>.
\<close>

definition xnpv :: "real \<Rightarrow> date list \<Rightarrow> real list \<Rightarrow> real" where
  "xnpv r dates amounts =
     (case dates of
        [] \<Rightarrow> 0
      | d0 # _ \<Rightarrow> (\<Sum>(d, a) \<leftarrow> zip dates amounts. a / (1 + r) powr year_fraction d0 d))"

section \<open>Notions of the specification and sample inputs\<close>

text \<open>
  The amount of an event in the specification's words: the coupon amount plus the
  amortization amount, an absent amount counting as zero. Absent is a dash or a missing
  value.
\<close>

definition event_amount :: "cf_row \<Rightarrow> real" where
  "event_amount r =
     (case coupon r of Val c \<Rightarrow> c | _ \<Rightarrow> 0) + (case amt r of Val a \<Rightarrow> a | _ \<Rightarrow> 0)"

fun present :: "'a cell \<Rightarrow> bool" where
  "present (Val v) = True"
| "present Dash = False"
| "present NA = False"

definition example_nfo :: nfo_frame where
  "example_nfo = [''FACEVALUE'' \<mapsto> Val 1000, ''ACCRUEDINT'' \<mapsto> Val 0]"

definition example_cf :: cf_frame where
  "example_cf =
     [\<lparr>event_date = DateStr 5, coupon = Val 50, amt = Dash, offer = Dash, offer_type = Dash\<rparr>,
      \<lparr>event_date = DateStr 10, coupon = Val 50, amt = Val 200, offer = Dash, offer_type = Dash\<rparr>,
      \<lparr>event_date = DateStr 11, coupon = Val 40, amt = Dash, offer = Dash, offer_type = Dash\<rparr>,
      \<lparr>event_date = DateStr 20, coupon = Val 40, amt = Val 800, offer = Dash, offer_type = Dash\<rparr>]"

text \<open>
  The condition of the specification for an incomplete schedule: some event strictly after
  the purchase date has no coupon amount.
\<close>

definition incomplete_going_forward :: "date \<Rightarrow> cf_frame \<Rightarrow> bool" where
  "incomplete_going_forward purchase_date df \<longleftrightarrow>
     (\<exists>r \<in> set df. purchase_date < day_of (event_date r) \<and> \<not> present (coupon r))"

text \<open>
  Modelled from the spec: the contract of the root-finder, which is not in the source. A
  timeline with no cash flow after the purchase date fails as unsolvable; a rate that is
  returned lies in the sane domain (not below \<open>-99%\<close>) and leaves an absolute residual of
  the net present value of at most \<open>1e-8\<close>.
\<close>

definition xirr_contract :: "(date list \<Rightarrow> real list \<Rightarrow> xirr_error + real) \<Rightarrow> bool" where
  "xirr_contract xirr \<longleftrightarrow>
     (\<forall>dates amounts. length dates \<le> 1 \<longrightarrow> xirr dates amounts = Inl UnsolvableSchedule) \<and>
     (\<forall>dates amounts rate. xirr dates amounts = Inr rate \<longrightarrow>
        - 99 / 100 \<le> rate \<and> \<bar>xnpv rate dates amounts\<bar> \<le> 1 / 10 ^ 8)"

text \<open>A root-finder that never finds a rate.\<close>

definition no_rate :: "date list \<Rightarrow> real list \<Rightarrow> xirr_error + real" where
  "no_rate dates amounts = Inl NonConvergence"

text \<open>Sample schedules: an offer in the past; a missing coupon in the past; all events past.\<close>

definition offer_cf :: cf_frame where
  "offer_cf =
     [\<lparr>event_date = DateStr 5, coupon = Val 50, amt = Dash, offer = Val 100, offer_type = Dash\<rparr>,
      \<lparr>event_date = DateStr 20, coupon = Val 50, amt = Val 1000, offer = Dash, offer_type = Dash\<rparr>]"

definition past_gap_cf :: cf_frame where
  "past_gap_cf =
     [\<lparr>event_date = DateStr 5, coupon = Dash, amt = Val 100, offer = Dash, offer_type = Dash\<rparr>,
      \<lparr>event_date = DateStr 20, coupon = Val 50, amt = Val 900, offer = Dash, offer_type = Dash\<rparr>]"


text \<open>The second and the third row of \<open>example_cf\<close>.\<close>

definition on_purchase_date :: cf_row where
  "on_purchase_date =
     \<lparr>event_date = DateStr 10, coupon = Val 50, amt = Val 200, offer = Dash, offer_type = Dash\<rparr>"

definition day_after_purchase :: cf_row where
  "day_after_purchase =
     \<lparr>event_date = DateStr 11, coupon = Val 40, amt = Dash, offer = Dash, offer_type = Dash\<rparr>"


text \<open>
  A schedule of two yearly payments: 110 on 2025-01-01, then 89 and the redemption of 1000
  on 2026-01-01.
\<close>

definition two_year_cf :: cf_frame where
  "two_year_cf =
     [\<lparr>event_date = DateStr (days_from_civil 2025 1 1), coupon = Val 110, amt = Dash,
       offer = Dash, offer_type = Dash\<rparr>,
      \<lparr>event_date = DateStr (days_from_civil 2026 1 1), coupon = Val 89, amt = Val 1000,
       offer = Dash, offer_type = Dash\<rparr>]"

text \<open>
  A root-finder given as a table: the exact rates of three problems, a failure otherwise.
\<close>

definition table_xirr :: "date list \<Rightarrow> real list \<Rightarrow> xirr_error + real" where
  "table_xirr dates amounts =
     (if dates = [19723, 20089] \<and> amounts = [- 1000, 1050] then Inr (5 / 100)
      else if dates = [19723, 20089, 20454] \<and> amounts = [- 1000, 110, 1089] then Inr (10 / 100)
      else if dates = [20089, 20454] \<and> amounts = [- 1000, 1089] then Inr (89 / 1000)
      else if length dates \<le> 1 then Inl UnsolvableSchedule
      else Inl NonConvergence)"

text \<open>A store holding the caller's two frames at the addresses 0 and 1.\<close>

definition example_heap :: heap where
  "example_heap =
     \<lparr>cells = [0 \<mapsto> NfoFrame example_nfo, 1 \<mapsto> CfFrame two_year_cf], next_free = 2\<rparr>"



text \<open>
  Sample tables: a coupon and an amortization on 2025-06-01 (day 20240), a coupon without
  a value on day 20300, an offer on day 20100; and a coupon table with one date twice.
\<close>

definition sample_coupons :: "coupon_rec list" where
  "sample_coupons =
     [\<lparr>coupondate = 20300, coupon_value = None\<rparr>, \<lparr>coupondate = 20240, coupon_value = Some 5\<rparr>]"

definition sample_amortizations :: "amort_rec list" where
  "sample_amortizations = [\<lparr>amortdate = 20240, amort_value = Some 100\<rparr>]"

definition sample_offers :: "offer_rec list" where
  "sample_offers = [\<lparr>offerdate = 20100, offer_price = Some 100, offertype = None\<rparr>]"

definition doubled_coupons :: "coupon_rec list" where
  "doubled_coupons =
     [\<lparr>coupondate = 20240, coupon_value = Some 5\<rparr>, \<lparr>coupondate = 20240, coupon_value = Some 6\<rparr>]"

section \<open>Lemmas on the yield computation\<close>

lemma skipna_replace_dash: "skipna (replace_dash c) = (case c of Val x \<Rightarrow> x | _ \<Rightarrow> 0)"
  by (cases c) simp_all

lemma day_of_to_datetime: "day_of (to_datetime c) = day_of c"
  by (cases c) simp_all

lemma pipeline_dates:
  "map (\<lambda>r. day_of (event_date r)) (after_purchase t (to_datetime_frame (replace_frame df)))
     = map (\<lambda>r. day_of (event_date r)) (filter (\<lambda>r. t < day_of (event_date r)) df)"
  by (induction df)
     (simp_all add: after_purchase_def to_datetime_frame_def replace_frame_def replace_row_def
        day_of_to_datetime)

lemma pipeline_amounts:
  "map row_sum (after_purchase t (to_datetime_frame (replace_frame df)))
     = map event_amount (filter (\<lambda>r. t < day_of (event_date r)) df)"
  by (induction df)
     (simp_all add: after_purchase_def to_datetime_frame_def replace_frame_def replace_row_def
        day_of_to_datetime row_sum_def event_amount_def skipna_replace_dash)

lemma isna_replace_dash: "isna (replace_dash c) \<longleftrightarrow> \<not> present c"
  by (cases c) simp_all

lemma cannot_calculate_replace:
  "cannot_calculate (replace_frame df) \<longleftrightarrow>
     (\<exists>r \<in> set df. \<not> present (coupon r)) \<or>
     (\<exists>r \<in> set df. present (offer r) \<or> present (offer_type r))"
  by (auto simp: cannot_calculate_def replace_frame_def replace_row_def isna_replace_dash)

lemma xirr_arguments_Inr:
  "xirr_arguments today df_nfo df_cf price = Inr (dates, amounts) \<longleftrightarrow>
     \<not> cannot_calculate (replace_frame df_cf) \<and>
     (\<exists>facevalue accruedint.
        float_at df_nfo ''FACEVALUE'' = Some facevalue \<and>
        float_at df_nfo ''ACCRUEDINT'' = Some accruedint \<and>
        dates = today # map (\<lambda>r. day_of (event_date r))
                          (filter (\<lambda>r. today < day_of (event_date r)) df_cf) \<and>
        amounts = (- price / 100 * facevalue - accruedint)
                    # map event_amount (filter (\<lambda>r. today < day_of (event_date r)) df_cf))"
  by (auto simp: xirr_arguments_def Let_def pipeline_dates pipeline_amounts split: option.splits)

lemma example_arguments:
  "xirr_arguments 10 example_nfo example_cf 100 = Inr ([10, 11, 20], [- 1000, 40, 840])"
  by (simp add: xirr_arguments_def example_nfo_def example_cf_def replace_frame_def
      replace_row_def cannot_calculate_def float_at_def to_datetime_frame_def after_purchase_def
      row_sum_def)

section \<open>The vectors handed to the root-finder\<close>

text \<open>
  Claim C1. Whenever the schedule, the price, the face value and the accrued interest are
  accepted (the computation reaches the root-finder with a timeline \<open>dates\<close> and a vector
  \<open>amounts\<close>), the timeline is the purchase date followed by the dates of the events
  strictly after the purchase date, in the order of the schedule, and the amounts are
  \<open>- (price / 100 * face value + accrued interest)\<close> followed by, for each of these events,
  its coupon amount plus its amortization amount, an absent amount counting as zero (every
  coupon amount is present then); the result of the solve is the rounded rate the
  root-finder gives for exactly these vectors.
\<close>

theorem xirr_receives_timeline_and_amounts:
  assumes "xirr_arguments today df_nfo df_cf price = Inr (dates, amounts)"
  shows "\<exists>facevalue accruedint.
     float_at df_nfo ''FACEVALUE'' = Some facevalue \<and>
     float_at df_nfo ''ACCRUEDINT'' = Some accruedint \<and>
     dates = today # map (\<lambda>r. day_of (event_date r))
                       (filter (\<lambda>r. today < day_of (event_date r)) df_cf) \<and>
     amounts = - (price / 100 * facevalue + accruedint)
                 # map event_amount (filter (\<lambda>r. today < day_of (event_date r)) df_cf) \<and>
     (\<forall>r \<in> set df_cf. present (coupon r)) \<and>
     moex_bond_yield xirr today df_nfo df_cf price =
       (case xirr dates amounts of
          Inl e \<Rightarrow> Inl (XirrRaised e)
        | Inr rate \<Rightarrow> Inr (py_round (rate * 100) 2))"
proof -
  from assms obtain facevalue accruedint where
    ok: "\<not> cannot_calculate (replace_frame df_cf)" and
    fv: "float_at df_nfo ''FACEVALUE'' = Some facevalue" and
    ai: "float_at df_nfo ''ACCRUEDINT'' = Some accruedint" and
    ds: "dates = today # map (\<lambda>r. day_of (event_date r))
                       (filter (\<lambda>r. today < day_of (event_date r)) df_cf)" and
    am: "amounts = (- price / 100 * facevalue - accruedint)
                    # map event_amount (filter (\<lambda>r. today < day_of (event_date r)) df_cf)"
    unfolding xirr_arguments_Inr by blast
  have neg: "- price / 100 * facevalue - accruedint = - (price / 100 * facevalue + accruedint)"
    by simp
  from ok have cp: "\<forall>r \<in> set df_cf. present (coupon r)"
    unfolding cannot_calculate_replace by blast
  have run: "moex_bond_yield xirr today df_nfo df_cf price =
       (case xirr dates amounts of
          Inl e \<Rightarrow> Inl (XirrRaised e)
        | Inr rate \<Rightarrow> Inr (py_round (rate * 100) 2))"
    using assms by (simp add: moex_bond_yield_def)
  show ?thesis using fv ai ds am cp run unfolding neg by blast
qed

theorem xirr_receives_timeline_and_amounts_witness:
  "xirr_arguments 10 example_nfo example_cf 100 = Inr ([10, 11, 20], [- 1000, 40, 840]) \<and>
   (\<exists>facevalue accruedint.
     float_at example_nfo ''FACEVALUE'' = Some facevalue \<and>
     float_at example_nfo ''ACCRUEDINT'' = Some accruedint \<and>
     [10, 11, 20] = 10 # map (\<lambda>r. day_of (event_date r))
                       (filter (\<lambda>r. 10 < day_of (event_date r)) example_cf) \<and>
     [- 1000, 40, 840] = - (100 / 100 * facevalue + accruedint)
                 # map event_amount (filter (\<lambda>r. 10 < day_of (event_date r)) example_cf) \<and>
     (\<forall>r \<in> set example_cf. present (coupon r)) \<and>
     moex_bond_yield (\<lambda>ds as. Inr (1 / 20)) 10 example_nfo example_cf 100 =
       (case (\<lambda>ds as. Inr (1 / 20)) [10, 11, 20] [- 1000, 40, 840] of
          Inl e \<Rightarrow> Inl (XirrRaised e)
        | Inr rate \<Rightarrow> Inr (py_round (rate * 100) 2)))"
  by (rule conjI [OF example_arguments
        xirr_receives_timeline_and_amounts [OF example_arguments]])

section \<open>Rejected schedules\<close>

lemma xirr_arguments_cannot:
  "xirr_arguments today df_nfo df_cf price = Inl CantCalculateYTM \<longleftrightarrow>
     cannot_calculate (replace_frame df_cf)"
  by (auto simp: xirr_arguments_def Let_def split: option.splits)

lemma moex_bond_yield_cannot:
  "moex_bond_yield xirr today df_nfo df_cf price = Inl CantCalculateYTM \<longleftrightarrow>
     cannot_calculate (replace_frame df_cf)"
proof (cases "xirr_arguments today df_nfo df_cf price")
  case (Inl e)
  then show ?thesis
    using xirr_arguments_cannot [of today df_nfo df_cf price]
    by (simp add: moex_bond_yield_def)
next
  case (Inr p)
  then show ?thesis
    using xirr_arguments_cannot [of today df_nfo df_cf price]
    by (cases p) (simp add: moex_bond_yield_def split: sum.splits)
qed

lemma moex_bond_yield_Inr_arguments:
  "xirr_arguments today df_nfo df_cf price = Inr (dates, amounts) \<Longrightarrow>
   moex_bond_yield xirr today df_nfo df_cf price =
     (case xirr dates amounts of
        Inl e \<Rightarrow> Inl (XirrRaised e)
      | Inr rate \<Rightarrow> Inr (py_round (rate * 100) 2))"
  by (simp add: moex_bond_yield_def)

text \<open>
  Claim C2. If any event of the schedule, whatever its date and its other fields, carries
  a present offer price or offer type, the solve fails with the exception of line 197 and
  returns no yield.
\<close>

theorem offer_anywhere_fails:
  assumes "r \<in> set df_cf" and "present (offer r) \<or> present (offer_type r)"
  shows "moex_bond_yield xirr today df_nfo df_cf price = Inl CantCalculateYTM"
  using assms unfolding moex_bond_yield_cannot cannot_calculate_replace by blast

theorem offer_anywhere_fails_witness:
  "hd offer_cf \<in> set offer_cf \<and>
   (present (offer (hd offer_cf)) \<or> present (offer_type (hd offer_cf))) \<and>
   day_of (event_date (hd offer_cf)) < 10 \<and>
   moex_bond_yield no_rate 10 example_nfo offer_cf 100 = Inl CantCalculateYTM"
proof -
  have a: "hd offer_cf \<in> set offer_cf" by (simp add: offer_cf_def)
  have b: "present (offer (hd offer_cf)) \<or> present (offer_type (hd offer_cf))"
    by (simp add: offer_cf_def)
  have c: "day_of (event_date (hd offer_cf)) < 10" by (simp add: offer_cf_def)
  show ?thesis using a b c offer_anywhere_fails [OF a b] by blast
qed

text \<open>
  Claim C3, as stated, fails: a schedule whose only missing coupon is on an event before
  the purchase date is rejected all the same.
\<close>

theorem past_missing_coupon_counterexample:
  "moex_bond_yield no_rate 10 example_nfo past_gap_cf 100 = Inl CantCalculateYTM \<and>
   \<not> incomplete_going_forward 10 past_gap_cf"
  by (simp add: moex_bond_yield_cannot cannot_calculate_replace incomplete_going_forward_def
      past_gap_cf_def)

text \<open>
  Claim C3, amended. The solve fails with the exception of line 197 if and only if some
  event of the schedule, before, on or after the purchase date, has an absent coupon
  amount, or some event carries a present offer price or offer type.
\<close>

theorem validation_failure_iff:
  "moex_bond_yield xirr today df_nfo df_cf price = Inl CantCalculateYTM \<longleftrightarrow>
     (\<exists>r \<in> set df_cf. \<not> present (coupon r)) \<or>
     (\<exists>r \<in> set df_cf. present (offer r) \<or> present (offer_type r))"
  unfolding moex_bond_yield_cannot cannot_calculate_replace ..

theorem validation_failure_iff_witness:
  "moex_bond_yield no_rate 10 example_nfo past_gap_cf 100 = Inl CantCalculateYTM \<and>
   (\<exists>r \<in> set past_gap_cf. \<not> present (coupon r)) \<and>
   moex_bond_yield no_rate 10 example_nfo example_cf 100 \<noteq> Inl CantCalculateYTM \<and>
   \<not> ((\<exists>r \<in> set example_cf. \<not> present (coupon r)) \<or>
     (\<exists>r \<in> set example_cf. present (offer r) \<or> present (offer_type r)))"
  using validation_failure_iff [of no_rate 10 example_nfo past_gap_cf 100]
    validation_failure_iff [of no_rate 10 example_nfo example_cf 100]
  by (simp add: past_gap_cf_def example_cf_def)

section \<open>The boundary at the purchase date\<close>

lemma example_cf_split1:
  "example_cf = [hd example_cf] @ on_purchase_date # tl (tl example_cf)"
  by (simp add: example_cf_def on_purchase_date_def)

lemma example_cf_split2:
  "example_cf = [hd example_cf, on_purchase_date] @ day_after_purchase # [last example_cf]"
  by (simp add: example_cf_def on_purchase_date_def day_after_purchase_def)

text \<open>
  Claim C5. In an accepted solve, an event dated on the purchase date adds nothing to the
  timeline or to the amounts (the vectors are those of the schedule without it), and an
  event dated one day after the purchase date is in both, at its place in the schedule,
  with its date and its amount.
\<close>

theorem purchase_date_boundary:
  assumes "xirr_arguments today df_nfo (df_a @ r # df_b) price = Inr (dates, amounts)"
  shows "(day_of (event_date r) = today \<longrightarrow>
            xirr_arguments today df_nfo (df_a @ df_b) price = Inr (dates, amounts)) \<and>
         (day_of (event_date r) = today + 1 \<longrightarrow>
            (\<exists>outflow.
               dates = today # map (\<lambda>r. day_of (event_date r))
                                 (filter (\<lambda>r. today < day_of (event_date r)) df_a)
                         @ (today + 1) # map (\<lambda>r. day_of (event_date r))
                                 (filter (\<lambda>r. today < day_of (event_date r)) df_b) \<and>
               amounts = outflow # map event_amount
                                 (filter (\<lambda>r. today < day_of (event_date r)) df_a)
                         @ event_amount r # map event_amount
                                 (filter (\<lambda>r. today < day_of (event_date r)) df_b)))"
proof (intro conjI impI)
  assume on: "day_of (event_date r) = today"
  from assms have "\<not> cannot_calculate (replace_frame (df_a @ df_b))"
    unfolding xirr_arguments_Inr by (auto simp: cannot_calculate_def replace_frame_def)
  with assms on show "xirr_arguments today df_nfo (df_a @ df_b) price = Inr (dates, amounts)"
    unfolding xirr_arguments_Inr by auto
next
  assume after: "day_of (event_date r) = today + 1"
  with assms show "\<exists>outflow.
               dates = today # map (\<lambda>r. day_of (event_date r))
                                 (filter (\<lambda>r. today < day_of (event_date r)) df_a)
                         @ (today + 1) # map (\<lambda>r. day_of (event_date r))
                                 (filter (\<lambda>r. today < day_of (event_date r)) df_b) \<and>
               amounts = outflow # map event_amount
                                 (filter (\<lambda>r. today < day_of (event_date r)) df_a)
                         @ event_amount r # map event_amount
                                 (filter (\<lambda>r. today < day_of (event_date r)) df_b)"
    unfolding xirr_arguments_Inr by auto
qed

theorem purchase_date_boundary_witness:
  "xirr_arguments 10 example_nfo example_cf 100 = Inr ([10, 11, 20], [- 1000, 40, 840]) \<and>
   day_of (event_date on_purchase_date) = 10 \<and>
   xirr_arguments 10 example_nfo ([hd example_cf] @ tl (tl example_cf)) 100
     = Inr ([10, 11, 20], [- 1000, 40, 840]) \<and>
   day_of (event_date day_after_purchase) = 10 + 1 \<and>
   event_amount day_after_purchase = 40"
proof -
  have a1: "xirr_arguments 10 example_nfo
       ([hd example_cf] @ on_purchase_date # tl (tl example_cf)) 100
      = Inr ([10, 11, 20], [- 1000, 40, 840])"
    using example_arguments example_cf_split1 by simp
  have a2: "xirr_arguments 10 example_nfo
       ([hd example_cf, on_purchase_date] @ day_after_purchase # [last example_cf]) 100
      = Inr ([10, 11, 20], [- 1000, 40, 840])"
    using example_arguments example_cf_split2 by simp
  have d1: "day_of (event_date on_purchase_date) = 10" by (simp add: on_purchase_date_def)
  have d2: "day_of (event_date day_after_purchase) = 10 + 1"
    by (simp add: day_after_purchase_def)
  have e: "event_amount day_after_purchase = 40"
    by (simp add: day_after_purchase_def event_amount_def)
  show ?thesis
    using purchase_date_boundary [OF a1] purchase_date_boundary [OF a2] d1 d2 e
      example_arguments
    by simp
qed

section \<open>Calendar values\<close>

lemma civil_vals:
  "days_from_civil 2024 1 1 = 19723" "days_from_civil 2025 1 1 = 20089"
  "days_from_civil 2026 1 1 = 20454" "days_from_civil 2025 6 1 = 20240"
  by code_simp+

lemma year_of_vals:
  "year_of 19723 = 2024" "year_of 20089 = 2025" "year_of 20454 = 2026"
  by code_simp+

lemma year_start_vals:
  "year_start 2024 = 19723" "year_start 2025 = 20089" "year_start 2026 = 20454"
  "year_start 2027 = 20819"
  by code_simp+

lemma days_in_year_vals:
  "days_in_year 2024 = 366" "days_in_year 2025 = 365" "days_in_year 2026 = 365"
  by code_simp+

lemma upto_vals:
  "[2024 .. 2024] = [2024::int]" "[2024 .. 2025] = [2024, 2025::int]"
  "[2024 .. 2026] = [2024, 2025, 2026::int]"
  "[2025 .. 2025] = [2025::int]" "[2025 .. 2026] = [2025, 2026::int]"
  by (simp_all add: upto_rec1)

lemma year_fraction_vals:
  "year_fraction 19723 19723 = 0"
  "year_fraction 19723 20089 = 1"
  "year_fraction 19723 20454 = 2"
  "year_fraction 20089 20089 = 0"
  "year_fraction 20089 20454 = 1"
  by (simp_all add: year_fraction_def year_of_vals year_start_vals
       days_in_year_vals upto_vals)

lemma xnpv_single:
  "- 1 < r \<Longrightarrow> xnpv r [19723, 20089] [- 1000, 1050] = - 1000 + 1050 / (1 + r)"
  by (simp add: xnpv_def year_fraction_vals)

lemma xnpv_redemption: "xnpv (5 / 100) [19723, 20089] [- 1000, 1050] = 0"
  by (simp add: xnpv_single)

lemma xnpv_two_year: "xnpv (10 / 100) [19723, 20089, 20454] [- 1000, 110, 1089] = 0"
  by (simp add: xnpv_def year_fraction_vals power2_eq_square)

lemma xnpv_one_year_left: "xnpv (89 / 1000) [20089, 20454] [- 1000, 1089] = 0"
  by (simp add: xnpv_def year_fraction_vals)

lemma table_xirr_contract: "xirr_contract table_xirr"
  unfolding xirr_contract_def
proof (intro conjI allI impI)
  fix dates :: "date list" and amounts :: "real list"
  assume "length dates \<le> 1"
  then show "table_xirr dates amounts = Inl UnsolvableSchedule"
    by (auto simp: table_xirr_def)
next
  fix dates amounts rate
  assume "table_xirr dates amounts = Inr rate"
  then consider
      "dates = [19723, 20089]" "amounts = [- 1000, 1050]" "rate = 5 / 100"
    | "dates = [19723, 20089, 20454]" "amounts = [- 1000, 110, 1089]" "rate = 10 / 100"
    | "dates = [20089, 20454]" "amounts = [- 1000, 1089]" "rate = 89 / 1000"
    by (auto simp: table_xirr_def split: if_splits)
  then show "- 99 / 100 \<le> rate"
    by cases simp_all
next
  fix dates amounts rate
  assume "table_xirr dates amounts = Inr rate"
  then consider
      "dates = [19723, 20089]" "amounts = [- 1000, 1050]" "rate = 5 / 100"
    | "dates = [19723, 20089, 20454]" "amounts = [- 1000, 110, 1089]" "rate = 10 / 100"
    | "dates = [20089, 20454]" "amounts = [- 1000, 1089]" "rate = 89 / 1000"
    by (auto simp: table_xirr_def split: if_splits)
  then show "\<bar>xnpv rate dates amounts\<bar> \<le> 1 / 10 ^ 8"
  proof cases
    case 1
    show ?thesis unfolding 1 xnpv_redemption by simp
  next
    case 2
    show ?thesis unfolding 2 xnpv_two_year by simp
  next
    case 3
    show ?thesis unfolding 3 xnpv_one_year_left by simp
  qed
qed



lemma two_year_arguments:
  "xirr_arguments 19723 example_nfo two_year_cf 100
     = Inr ([19723, 20089, 20454], [- 1000, 110, 1089])"
  by (simp add: xirr_arguments_def example_nfo_def two_year_cf_def replace_frame_def
      replace_row_def cannot_calculate_def float_at_def to_datetime_frame_def after_purchase_def
      row_sum_def civil_vals)

lemma one_year_left_arguments:
  "xirr_arguments 20089 example_nfo two_year_cf 100 = Inr ([20089, 20454], [- 1000, 1089])"
  by (simp add: xirr_arguments_def example_nfo_def two_year_cf_def replace_frame_def
      replace_row_def cannot_calculate_def float_at_def to_datetime_frame_def after_purchase_def
      row_sum_def civil_vals)



section \<open>The single-period example\<close>



section \<open>No event after the purchase date\<close>




lemma two_year_yield_2024:
  "moex_bond_yield table_xirr 19723 example_nfo two_year_cf 100 = Inr 10"
proof -
  have "py_round (10 / 100 * 100) 2 = 10" by (simp add: py_round_def)
  then show ?thesis
    using moex_bond_yield_Inr_arguments [OF two_year_arguments, of table_xirr]
    by (simp add: table_xirr_def)
qed

lemma two_year_yield_2025:
  "moex_bond_yield table_xirr 20089 example_nfo two_year_cf 100 = Inr (89 / 10)"
proof -
  have "py_round (89 / 1000 * 100) 2 = 89 / 10" by (simp add: py_round_def)
  then show ?thesis
    using moex_bond_yield_Inr_arguments [OF one_year_left_arguments, of table_xirr]
    by (simp add: table_xirr_def)
qed

section \<open>The clock and the caller's frames\<close>

lemma heap_result:
  assumes "cells h p_nfo = Some (NfoFrame df_nfo)" and "cells h p_cf = Some (CfFrame df_cf)"
  shows "fst (moex_bond_yield_heap xirr today h p_nfo p_cf price)
           = Some (moex_bond_yield xirr today df_nfo df_cf price)"
  using assms
  by (simp add: moex_bond_yield_heap_def moex_bond_yield_def xirr_arguments_def Let_def
      split: option.splits prod.splits sum.splits)

lemma heap_result_cong:
  assumes "cells h p_nfo = cells h' p_nfo" and "cells h p_cf = cells h' p_cf"
  shows "fst (moex_bond_yield_heap xirr today h p_nfo p_cf price)
           = fst (moex_bond_yield_heap xirr today h' p_nfo p_cf price)"
  using assms
  by (simp add: moex_bond_yield_heap_def Let_def
      split: option.splits prod.splits obj.splits sum.splits)

lemma heap_frame:
  assumes "p < next_free h"
  shows "cells (snd (moex_bond_yield_heap xirr today h p_nfo p_cf price)) p = cells h p"
  using assms
  by (auto simp: moex_bond_yield_heap_def Let_def alloc_def store_at_def
      split: option.splits prod.splits obj.splits sum.splits)

lemma example_heap_cells:
  "cells example_heap 0 = Some (NfoFrame example_nfo)"
  "cells example_heap 1 = Some (CfFrame two_year_cf)"
  "cells example_heap 2 = None"
  "next_free example_heap = 2"
  by (simp_all add: example_heap_def)

lemma example_heap_result:
  "fst (moex_bond_yield_heap table_xirr 19723 example_heap 0 1 100) = Some (Inr 10)"
  using heap_result [OF example_heap_cells(1) example_heap_cells(2), of table_xirr 19723 100]
  by (simp add: two_year_yield_2024)

lemma example_heap_written:
  "cells (snd (moex_bond_yield_heap table_xirr 19723 example_heap 0 1 100)) 2 =
     Some (CfFrame
       [\<lparr>event_date = Timestamp 20089, coupon = Val 110, amt = NA, offer = NA, offer_type = NA\<rparr>,
        \<lparr>event_date = Timestamp 20454, coupon = Val 89, amt = Val 1000, offer = NA,
          offer_type = NA\<rparr>])"
  by (simp add: moex_bond_yield_heap_def example_heap_def Let_def alloc_def store_at_def
      example_nfo_def two_year_cf_def replace_frame_def replace_row_def cannot_calculate_def
      float_at_def to_datetime_frame_def after_purchase_def civil_vals
      split: option.splits prod.splits sum.splits)

text \<open>
  Claim C8, as stated, fails: the purchase date is read from the system clock, so two calls
  with the same two frames and the same price are given different problems on different
  days. With the root-finder \<open>table_xirr\<close>, which keeps the contract, the call on 2024-01-01
  returns 10.0 and the call on 2025-01-01 returns 8.9.
\<close>

theorem clock_changes_rate_counterexample:
  "xirr_contract table_xirr \<and>
   moex_bond_yield table_xirr (days_from_civil 2024 1 1) example_nfo two_year_cf 100
     = Inr 10 \<and>
   moex_bond_yield table_xirr (days_from_civil 2025 1 1) example_nfo two_year_cf 100
     = Inr (89 / 10) \<and>
   moex_bond_yield table_xirr (days_from_civil 2024 1 1) example_nfo two_year_cf 100
     \<noteq> moex_bond_yield table_xirr (days_from_civil 2025 1 1) example_nfo two_year_cf 100"
  using two_year_yield_2024 two_year_yield_2025 table_xirr_contract by (simp add: civil_vals)

text \<open>
  Claim C8, amended. Two calls with the same frames and the same price made on the same
  day return the same result: the second call, run on the store the first call leaves
  behind, gives what the first gave. Besides its declared inputs the result depends on the
  current date, read from the system clock, and on nothing else.
\<close>

theorem same_day_calls_agree:
  assumes "p_nfo < next_free h" and "p_cf < next_free h"
  shows "fst (moex_bond_yield_heap xirr today
                (snd (moex_bond_yield_heap xirr today h p_nfo p_cf price)) p_nfo p_cf price)
         = fst (moex_bond_yield_heap xirr today h p_nfo p_cf price)"
proof -
  let ?h1 = "snd (moex_bond_yield_heap xirr today h p_nfo p_cf price)"
  have "cells ?h1 p_nfo = cells h p_nfo"
    using assms(1) by (rule heap_frame)
  moreover have "cells ?h1 p_cf = cells h p_cf"
    using assms(2) by (rule heap_frame)
  ultimately show ?thesis by (rule heap_result_cong)
qed

theorem same_day_calls_agree_witness:
  "(0::nat) < next_free example_heap \<and> (1::nat) < next_free example_heap \<and>
   fst (moex_bond_yield_heap table_xirr 19723
          (snd (moex_bond_yield_heap table_xirr 19723 example_heap 0 1 100)) 0 1 100)
     = Some (Inr 10)"
proof -
  have a: "(0::nat) < next_free example_heap" by (simp add: example_heap_cells)
  have b: "(1::nat) < next_free example_heap" by (simp add: example_heap_cells)
  show ?thesis
    using same_day_calls_agree [OF a b, of table_xirr 19723 100] a b example_heap_result
    by simp
qed

text \<open>
  Claim C10. The call leaves both frames of the caller as they were, whether it returns a
  rate or raises: \<open>replace\<close> and the selection of rows build new frames, and the assignment
  of the converted dates goes to the new frame. Every object that existed before the call
  is unchanged after it.
\<close>

theorem caller_frames_unchanged:
  assumes "p_nfo < next_free h" and "p_cf < next_free h"
  shows "cells (snd (moex_bond_yield_heap xirr today h p_nfo p_cf price)) p_nfo = cells h p_nfo \<and>
         cells (snd (moex_bond_yield_heap xirr today h p_nfo p_cf price)) p_cf = cells h p_cf \<and>
         (\<forall>p < next_free h.
            cells (snd (moex_bond_yield_heap xirr today h p_nfo p_cf price)) p = cells h p)"
  using assms by (simp add: heap_frame)

theorem caller_frames_unchanged_witness:
  "(0::nat) < next_free example_heap \<and> (1::nat) < next_free example_heap \<and>
   cells (snd (moex_bond_yield_heap table_xirr 19723 example_heap 0 1 100)) 0
     = Some (NfoFrame example_nfo) \<and>
   cells (snd (moex_bond_yield_heap table_xirr 19723 example_heap 0 1 100)) 1
     = Some (CfFrame two_year_cf) \<and>
   cells (snd (moex_bond_yield_heap table_xirr 19723 example_heap 0 1 100)) 2
     \<noteq> cells example_heap 2"
proof -
  have a: "(0::nat) < next_free example_heap" by (simp add: example_heap_cells)
  have b: "(1::nat) < next_free example_heap" by (simp add: example_heap_cells)
  note kept = caller_frames_unchanged [OF a b, of table_xirr 19723 100]
  have c0: "cells (snd (moex_bond_yield_heap table_xirr 19723 example_heap 0 1 100)) 0
     = Some (NfoFrame example_nfo)"
    using conjunct1 [OF kept] example_heap_cells(1) by (rule trans)
  have c1: "cells (snd (moex_bond_yield_heap table_xirr 19723 example_heap 0 1 100)) 1
     = Some (CfFrame two_year_cf)"
    using conjunct1 [OF conjunct2 [OF kept]] example_heap_cells(2) by (rule trans)
  have c2: "cells (snd (moex_bond_yield_heap table_xirr 19723 example_heap 0 1 100)) 2
     \<noteq> cells example_heap 2"
    unfolding example_heap_written example_heap_cells(3) by simp
  show ?thesis using a b c0 c1 c2 by (intro conjI)
qed

section \<open>The outer merge\<close>

lemma merge_block_fst: "x \<in> set (merge_block left right k) \<Longrightarrow> fst x = k"
  by (auto simp: merge_block_def Let_def split: if_splits)

lemma merge_block_empty_iff:
  "merge_block left right k = [] \<longleftrightarrow> k \<notin> fst ` set left \<and> k \<notin> fst ` set right"
  by (auto simp: merge_block_def Let_def filter_empty_conv image_iff)


lemma sorted_concat_blocks:
  assumes "sorted ks" and "\<And>k' x. k' \<in> set ks \<Longrightarrow> x \<in> set (f k') \<Longrightarrow> key x = k'"
  shows "sorted (map key (concat (map f ks)))"
  using assms
proof (induction ks)
  case Nil
  then show ?case by simp
next
  case (Cons a ks)
  have "sorted (map key (f a))"
    using Cons.prems(2) [of a] by (auto simp: sorted_wrt_iff_nth_less sorted_map)
  then show ?case using Cons
    by (fastforce simp: sorted_append)
qed

lemma keys_concat_blocks:
  assumes "\<forall>k' \<in> set ks. \<exists>x. f k' = [x] \<and> key x = k'"
  shows "map key (concat (map f ks)) = ks"
  using assms
proof (induction ks)
  case Nil
  then show ?case by simp
next
  case (Cons a ks)
  from Cons.prems obtain x where "f a = [x]" and "key x = a" by auto
  moreover have "map key (concat (map f ks)) = ks" using Cons by simp
  ultimately show ?case by simp
qed



lemma sorted_merge_outer: "sorted (map fst (merge_outer left right))"
  unfolding merge_outer_def
  by (rule sorted_concat_blocks) (simp_all add: merge_block_fst)

lemma filter_key_distinct:
  "distinct (map fst xs) \<Longrightarrow> length (filter (\<lambda>x. fst x = k) xs) \<le> 1"
  by (induction xs) (auto simp: filter_empty_conv image_iff)

lemma merge_block_single:
  assumes "length (filter (\<lambda>x. fst x = k) left) \<le> 1"
      and "length (filter (\<lambda>y. fst y = k) right) \<le> 1"
      and "k \<in> fst ` set left \<union> fst ` set right"
  shows "\<exists>x. merge_block left right k = [x] \<and> fst x = k"
proof -
  from assms(3) have ne: "merge_block left right k \<noteq> []"
    unfolding merge_block_empty_iff by blast
  have "length (merge_block left right k) \<le> 1"
    using assms(1,2)
    by (cases "filter (\<lambda>x. fst x = k) left"; cases "filter (\<lambda>y. fst y = k) right")
       (auto simp: merge_block_def Let_def)
  with ne obtain x where x: "merge_block left right k = [x]"
    by (cases "merge_block left right k") auto
  then have "fst x = k" using merge_block_fst [of x left right k] by simp
  with x show ?thesis by blast
qed

lemma keys_merge_outer_distinct:
  assumes "distinct (map fst left)" and "distinct (map fst right)"
  shows "map fst (merge_outer left right) = sort (remdups (map fst left @ map fst right))"
  unfolding merge_outer_def
proof (rule keys_concat_blocks, rule ballI)
  fix k assume "k \<in> set (sort (remdups (map fst left @ map fst right)))"
  then have "k \<in> fst ` set left \<union> fst ` set right" by auto
  then show "\<exists>x. merge_block left right k = [x] \<and> fst x = k"
    using filter_key_distinct [OF assms(1)] filter_key_distinct [OF assms(2)]
    by (intro merge_block_single) auto
qed



section \<open>The cash-flow table\<close>

lemma fst_coupon_amt_row: "fst (coupon_amt_row x) = fst x"
  by (simp add: coupon_amt_row_def)

lemma day_fillna_merged_row: "day_of (event_date (fillna_row (merged_row x))) = fst x"
  by (simp add: fillna_row_def merged_row_def)

lemma days_of_rows:
  "map (\<lambda>r. day_of (event_date r)) (map fillna_row (map merged_row xs)) = map fst xs"
  by (simp add: day_fillna_merged_row)

lemma moex_bond_info_cf_rows:
  "moex_bond_info_cf coupons amortizations offers =
     map fillna_row (map merged_row
       (merge_outer (map coupon_amt_row (merge_outer (df_coupons coupons) (df_amt amortizations)))
          (df_off offers)))"
  unfolding moex_bond_info_cf_def Let_def
  by (rule sort_key_id_if_sorted) (simp only: days_of_rows sorted_merge_outer)

lemma moex_bond_info_cf_days:
  "map (\<lambda>r. day_of (event_date r)) (moex_bond_info_cf coupons amortizations offers) =
     map fst (merge_outer
       (map coupon_amt_row (merge_outer (df_coupons coupons) (df_amt amortizations)))
       (df_off offers))"
  unfolding moex_bond_info_cf_rows by (rule days_of_rows)

lemma fst_df_frames:
  "map fst (df_coupons coupons) = map coupondate coupons"
  "map fst (df_amt amortizations) = map amortdate amortizations"
  "map fst (df_off offers) = map offerdate offers"
  by (simp_all add: df_coupons_def df_amt_def df_off_def)

lemma moex_bond_info_cf_sorted:
  "sorted (map (\<lambda>r. day_of (event_date r)) (moex_bond_info_cf coupons amortizations offers))"
  unfolding moex_bond_info_cf_days by (rule sorted_merge_outer)


lemma moex_bond_info_cf_distinct:
  assumes "distinct (map coupondate coupons)" and "distinct (map amortdate amortizations)"
      and "distinct (map offerdate offers)"
  shows "distinct (map (\<lambda>r. day_of (event_date r)) (moex_bond_info_cf coupons amortizations offers))"
proof -
  have "map fst (merge_outer (df_coupons coupons) (df_amt amortizations))
          = sort (remdups (map fst (df_coupons coupons) @ map fst (df_amt amortizations)))"
    by (rule keys_merge_outer_distinct) (simp_all add: fst_df_frames assms)
  then have "distinct (map fst (merge_outer (df_coupons coupons) (df_amt amortizations)))"
    by simp
  then have d1: "distinct (map fst (map coupon_amt_row
                   (merge_outer (df_coupons coupons) (df_amt amortizations))))"
    by (simp add: fst_coupon_amt_row cong: map_cong)
  have d2: "distinct (map fst (df_off offers))" by (simp add: fst_df_frames assms)
  show ?thesis
    unfolding moex_bond_info_cf_days keys_merge_outer_distinct [OF d1 d2] by simp
qed




lemma doubled_table_run:
  "moex_bond_info_cf doubled_coupons [] [] =
     [\<lparr>event_date = DateStr 20240, coupon = Val 5, amt = Dash, offer = Dash, offer_type = Dash\<rparr>,
      \<lparr>event_date = DateStr 20240, coupon = Val 6, amt = Dash, offer = Dash, offer_type = Dash\<rparr>]"
  by (simp add: moex_bond_info_cf_def doubled_coupons_def
      df_coupons_def df_amt_def df_off_def merge_outer_def merge_block_def
      coupon_amt_row_def merged_row_def fillna_row_def)



section \<open>Order and uniqueness of the dates\<close>

text \<open>
  Claim C9, as stated, fails: a source with two records on one date gives two events on
  that date.
\<close>

theorem doubled_date_counterexample:
  "map (\<lambda>r. day_of (event_date r)) (moex_bond_info_cf doubled_coupons [] []) = [20240, 20240] \<and>
   \<not> sorted_wrt (<) (map (\<lambda>r. day_of (event_date r)) (moex_bond_info_cf doubled_coupons [] [])) \<and>
   \<not> distinct (map (\<lambda>r. day_of (event_date r)) (moex_bond_info_cf doubled_coupons [] []))"
  by (simp add: doubled_table_run)

text \<open>
  Claim C9, amended. The cash-flow table is always sorted ascending by date; when no
  source holds two records on one date, its dates are strictly increasing, each date
  occurring once.
\<close>

theorem dates_increasing:
  "sorted (map (\<lambda>r. day_of (event_date r)) (moex_bond_info_cf coupons amortizations offers)) \<and>
   (distinct (map coupondate coupons) \<and> distinct (map amortdate amortizations) \<and>
    distinct (map offerdate offers) \<longrightarrow>
    sorted_wrt (<) (map (\<lambda>r. day_of (event_date r))
      (moex_bond_info_cf coupons amortizations offers)))"
proof (intro conjI impI)
  show "sorted (map (\<lambda>r. day_of (event_date r))
          (moex_bond_info_cf coupons amortizations offers))"
    by (rule moex_bond_info_cf_sorted)
next
  assume "distinct (map coupondate coupons) \<and> distinct (map amortdate amortizations) \<and>
    distinct (map offerdate offers)"
  then have "distinct (map (\<lambda>r. day_of (event_date r))
               (moex_bond_info_cf coupons amortizations offers))"
    by (intro moex_bond_info_cf_distinct) simp_all
  then show "sorted_wrt (<) (map (\<lambda>r. day_of (event_date r))
      (moex_bond_info_cf coupons amortizations offers))"
    unfolding strict_sorted_iff using moex_bond_info_cf_sorted by blast
qed

theorem dates_increasing_witness:
  "distinct (map coupondate sample_coupons) \<and> distinct (map amortdate sample_amortizations) \<and>
   distinct (map offerdate sample_offers) \<and>
   sorted_wrt (<) (map (\<lambda>r. day_of (event_date r))
      (moex_bond_info_cf sample_coupons sample_amortizations sample_offers)) \<and>
   \<not> distinct (map coupondate doubled_coupons) \<and>
   sorted (map (\<lambda>r. day_of (event_date r)) (moex_bond_info_cf doubled_coupons [] []))"
proof -
  have h: "distinct (map coupondate sample_coupons) \<and>
      distinct (map amortdate sample_amortizations) \<and> distinct (map offerdate sample_offers)"
    by (simp add: sample_coupons_def sample_amortizations_def sample_offers_def)
  have n: "\<not> distinct (map coupondate doubled_coupons)"
    by (simp add: doubled_coupons_def)
  show ?thesis
    using dates_increasing [of sample_coupons sample_amortizations sample_offers]
      dates_increasing [of doubled_coupons "[]" "[]"] h n
    by blast
qed

end
